theory Spec2Isabelle
  imports Main "HOL-Library.Multiset" "HOL-Library.Sublist"
begin

section \<open>Tarot reading simulation: the session and the reading assembler\<close>

text \<open>
  A shallow embedding of \<^verbatim>\<open>tarot_copilot.py\<close>: the class \<^verbatim>\<open>TarotSession\<close>
  (\<^verbatim>\<open>reset_deck\<close>, \<^verbatim>\<open>draw_cards\<close>) and the functions \<^verbatim>\<open>interpret_card\<close> and
  \<^verbatim>\<open>create_reading\<close>. Mutation of the session object is explicit state passing,
  Python exceptions are values of a sum type, and the two effects of the outside
  world that \<^verbatim>\<open>draw_cards\<close> has (reading the system's random source, printing a
  line) are threaded through a record.
\<close>

subsection \<open>Exceptions\<close>

datatype py_error =
    ValueError string
  | IndexError
  | KeyError string

subsection \<open>The outside world: random source and standard output\<close>

text \<open>
  \<^verbatim>\<open>secrets.choice(seq)\<close> raises \<^verbatim>\<open>IndexError\<close> on an empty sequence and otherwise
  returns \<^verbatim>\<open>seq[randbelow(len(seq))]\<close>. The random source is an infinite supply of
  numbers, \<open>entropy w k\<close> being the \<open>k\<close>-th number still to come; a number \<open>r\<close> is
  used as the index \<open>r mod len(seq)\<close>, so every index below \<open>len(seq)\<close> is possible.
\<close>

record world =
  entropy :: "nat \<Rightarrow> nat"
  stdout :: "string list"

definition choice :: "'a list \<Rightarrow> world \<Rightarrow> py_error + ('a \<times> world)" where
  "choice seq w =
     (if seq = [] then Inl IndexError
      else Inr (seq ! (entropy w 0 mod length seq),
                w\<lparr>entropy := (\<lambda>k. entropy w (Suc k))\<rparr>))"

definition print :: "string \<Rightarrow> world \<Rightarrow> world" where
  "print line w = w\<lparr>stdout := stdout w @ [line]\<rparr>"

text \<open>\<^verbatim>\<open>list.remove(x)\<close> deletes the first occurrence and raises \<^verbatim>\<open>ValueError\<close> when there is none.\<close>

definition list_remove :: "'a list \<Rightarrow> 'a \<Rightarrow> py_error + 'a list" where
  "list_remove xs x =
     (if x \<in> set xs then Inr (remove1 x xs)
      else Inl (ValueError ''list.remove(x): x not in list''))"

subsection \<open>TarotSession\<close>

record session =
  deck :: "string list"
  drawn_cards :: "(string \<times> string) list"

definition full_deck :: "string list" where
  "full_deck = [
    ''The Fool'', ''The Magician'', ''The High Priestess'', ''The Empress'', ''The Emperor'',
    ''The Hierophant'', ''The Lovers'', ''The Chariot'', ''Strength'', ''The Hermit'',
    ''Wheel of Fortune'', ''Justice'', ''The Hanged Man'', ''Death'', ''Temperance'',
    ''The Devil'', ''The Tower'', ''The Star'', ''The Moon'', ''The Sun'',
    ''Judgement'', ''The World'', ''Ace of Wands'', ''Two of Wands'', ''Three of Wands'',
    ''Four of Wands'', ''Five of Wands'', ''Six of Wands'', ''Seven of Wands'', ''Eight of Wands'',
    ''Nine of Wands'', ''Ten of Wands'', ''Page of Wands'', ''Knight of Wands'', ''Queen of Wands'',
    ''King of Wands'', ''Ace of Cups'', ''Two of Cups'', ''Three of Cups'', ''Four of Cups'',
    ''Five of Cups'', ''Six of Cups'', ''Seven of Cups'', ''Eight of Cups'', ''Nine of Cups'',
    ''Ten of Cups'', ''Page of Cups'', ''Knight of Cups'', ''Queen of Cups'', ''King of Cups'',
    ''Ace of Swords'', ''Two of Swords'', ''Three of Swords'', ''Four of Swords'', ''Five of Swords'',
    ''Six of Swords'', ''Seven of Swords'', ''Eight of Swords'', ''Nine of Swords'', ''Ten of Swords'',
    ''Page of Swords'', ''Knight of Swords'', ''Queen of Swords'', ''King of Swords'',
    ''Ace of Pentacles'', ''Two of Pentacles'', ''Three of Pentacles'', ''Four of Pentacles'',
    ''Five of Pentacles'', ''Six of Pentacles'', ''Seven of Pentacles'', ''Eight of Pentacles'',
    ''Nine of Pentacles'', ''Ten of Pentacles'', ''Page of Pentacles'', ''Knight of Pentacles'',
    ''Queen of Pentacles'', ''King of Pentacles'']"

text \<open>\<^verbatim>\<open>reset_deck\<close> assigns both attributes, whatever they held before.\<close>

definition reset_deck :: "session \<Rightarrow> session" where
  "reset_deck s = s\<lparr>deck := full_deck, drawn_cards := []\<rparr>"

text \<open>
  \<^verbatim>\<open>__init__\<close> only calls \<^verbatim>\<open>reset_deck\<close>; the object has no attribute before, which
  is any value of the record here.
\<close>

definition init :: "session \<Rightarrow> session" where
  "init s = reset_deck s"

text \<open>
  The loop \<^verbatim>\<open>for _ in range(number_of_cards)\<close> of \<^verbatim>\<open>draw_cards\<close>: the first argument
  counts the iterations still to run, the last one is the local list \<^verbatim>\<open>drawn_cards\<close>.
  The \<^verbatim>\<open>break\<close> on an empty deck leaves the loop after printing.
\<close>

fun draw_loop ::
  "nat \<Rightarrow> session \<Rightarrow> world \<Rightarrow> (string \<times> string) list
     \<Rightarrow> py_error + ((string \<times> string) list \<times> session \<times> world)" where
  "draw_loop 0 s w drawn = Inr (drawn, s, w)"
| "draw_loop (Suc k) s w drawn =
     (if length (deck s) = 0 then Inr (drawn, s, print ''No more cards to draw.'' w)
      else
        case choice (deck s) w of
          Inl e \<Rightarrow> Inl e
        | Inr (card', w1) \<Rightarrow>
           (case list_remove (deck s) card' of
              Inl e \<Rightarrow> Inl e
            | Inr deck' \<Rightarrow>
               (case choice [''Upright'', ''Reversed''] w1 of
                  Inl e \<Rightarrow> Inl e
                | Inr (card_orientation, w2) \<Rightarrow>
                    draw_loop k
                      (s\<lparr>deck := deck',
                         drawn_cards := drawn_cards s @ [(card', card_orientation)]\<rparr>)
                      w2
                      (drawn @ [(card', card_orientation)]))))"

text \<open>\<^verbatim>\<open>range(n)\<close> is empty for \<open>n \<le> 0\<close> and has \<open>n\<close> elements otherwise.\<close>

definition draw_cards ::
  "int \<Rightarrow> session \<Rightarrow> world
     \<Rightarrow> py_error + ((string \<times> string) list \<times> session \<times> world)" where
  "draw_cards number_of_cards s w = draw_loop (nat number_of_cards) s w []"

text \<open>
  A client that calls \<^verbatim>\<open>draw_cards\<close> once for each requested size, in order, on the
  same session, and never \<^verbatim>\<open>reset_deck\<close>. An exception ends the run.
\<close>

fun draw_many :: "int list \<Rightarrow> session \<Rightarrow> world \<Rightarrow> py_error + (session \<times> world)" where
  "draw_many [] s w = Inr (s, w)"
| "draw_many (n # ns) s w =
     (case draw_cards n s w of
        Inl e \<Rightarrow> Inl e
      | Inr (drawn, s', w') \<Rightarrow> draw_many ns s' w')"

text \<open>
  The states a session object can be in: freshly constructed, and after any call of
  \<^verbatim>\<open>reset_deck\<close> or of \<^verbatim>\<open>draw_cards\<close> that returned.
\<close>

inductive reachable :: "session \<Rightarrow> bool" where
  reach_init: "reachable (init s)"
| reach_reset: "reachable s \<Longrightarrow> reachable (reset_deck s)"
| reach_draw: "reachable s \<Longrightarrow> draw_cards n s w = Inr (drawn, s', w') \<Longrightarrow> reachable s'"

subsection \<open>The deck as the spec describes it\<close>

definition suits :: "string list" where
  "suits = [''Wands'', ''Cups'', ''Swords'', ''Pentacles'']"

definition ranks :: "string list" where
  "ranks = [''Ace'', ''Two'', ''Three'', ''Four'', ''Five'', ''Six'', ''Seven'', ''Eight'',
            ''Nine'', ''Ten'', ''Page'', ''Knight'', ''Queen'', ''King'']"

definition minor_arcana :: "string list" where
  "minor_arcana = concat (map (\<lambda>suit. map (\<lambda>rank. rank @ '' of '' @ suit) ranks) suits)"

subsection \<open>Reference tables\<close>

text \<open>
  The five tables are read from JSON files when the module is loaded and never
  written afterwards; the files are data, so the tables are a parameter here. Each is
  a dictionary with string keys: the meanings of a card are a dictionary from
  orientation to text, a layout is a dictionary whose entry \<^verbatim>\<open>'positions'\<close> is the
  list of position labels, the other three tables map a card to text.
\<close>

type_synonym layout = "(string \<times> string list) list"

record tables =
  tarot_card_meanings :: "string \<rightharpoonup> (string \<rightharpoonup> string)"
  spread_layouts :: "string \<rightharpoonup> layout"
  numerology_data :: "string \<rightharpoonup> string"
  color_theory_data :: "string \<rightharpoonup> string"
  hidden_meanings_data :: "string \<rightharpoonup> string"

text \<open>\<^verbatim>\<open>d.get(key, default)\<close>.\<close>

definition dict_get :: "('k \<rightharpoonup> 'v) \<Rightarrow> 'k \<Rightarrow> 'v \<Rightarrow> 'v" where
  "dict_get d key default' = (case d key of None \<Rightarrow> default' | Some v \<Rightarrow> v)"

text \<open>\<^verbatim>\<open>str(n)\<close> of a length, as an f-string formats it.\<close>

fun str_nat :: "nat \<Rightarrow> string" where
  "str_nat n =
     (if n < 10 then [''0123456789'' ! n]
      else str_nat (n div 10) @ [''0123456789'' ! (n mod 10)])"

declare str_nat.simps [simp del]

subsection \<open>Interpretation\<close>

definition interpret_card :: "tables \<Rightarrow> string \<Rightarrow> string \<Rightarrow> string" where
  "interpret_card T card' orientation =
     dict_get (dict_get (tarot_card_meanings T) card' Map.empty) orientation
       ''No meaning found.''"

text \<open>
  The three lookups that \<^verbatim>\<open>create_reading\<close> makes in line, named after the local
  variables they are assigned to.
\<close>

definition hidden_symbols :: "tables \<Rightarrow> string \<Rightarrow> string" where
  "hidden_symbols T card' = dict_get (hidden_meanings_data T) card' ''No hidden symbols found.''"

definition numerology :: "tables \<Rightarrow> string \<Rightarrow> string" where
  "numerology T card' = dict_get (numerology_data T) card' ''No numerology found.''"

definition color_theory :: "tables \<Rightarrow> string \<Rightarrow> string" where
  "color_theory T card' = dict_get (color_theory_data T) card' ''No color theory found.''"

subsection \<open>Reading assembly\<close>

record reading_entry =
  Position :: string
  Card :: string
  Orientation :: string
  Meaning :: string
  Hidden_Symbols :: string
  Numerology :: string
  Color_Theory :: string

text \<open>
  The loop over \<^verbatim>\<open>enumerate(drawn_cards)\<close>; the last argument is the list \<^verbatim>\<open>reading\<close>.
  \<^verbatim>\<open>layout['positions'][i]\<close> raises \<^verbatim>\<open>KeyError\<close> without the entry and \<^verbatim>\<open>IndexError\<close>
  when \<open>i\<close> is not below the length of the list.
\<close>

fun reading_loop ::
  "tables \<Rightarrow> layout \<Rightarrow> (nat \<times> string \<times> string) list \<Rightarrow> reading_entry list
     \<Rightarrow> py_error + reading_entry list" where
  "reading_loop T layout [] reading = Inr reading"
| "reading_loop T layout ((i, card', orientation) # rest) reading =
     (case map_of layout ''positions'' of
        None \<Rightarrow> Inl (KeyError ''positions'')
      | Some positions \<Rightarrow>
          if i < length positions then
            reading_loop T layout rest
              (reading @
                [\<lparr>Position = positions ! i,
                  Card = card',
                  Orientation = orientation,
                  Meaning = interpret_card T card' orientation,
                  Hidden_Symbols = hidden_symbols T card',
                  Numerology = numerology T card',
                  Color_Theory = color_theory T card'\<rparr>])
          else Inl IndexError)"

text \<open>
  \<^verbatim>\<open>spread_layouts.get(layout_name)\<close> is \<^verbatim>\<open>None\<close> for a missing name, and \<^verbatim>\<open>not layout\<close>
  holds for \<^verbatim>\<open>None\<close> and for an empty dictionary.
\<close>

definition create_reading ::
  "tables \<Rightarrow> (string \<times> string) list \<Rightarrow> string \<Rightarrow> py_error + reading_entry list" where
  "create_reading T drawn layout_name =
     (case spread_layouts T layout_name of
        None \<Rightarrow>
          Inl (ValueError (''Layout '' @ [CHR 0x27] @ layout_name @ [CHR 0x27] @ '' is not defined.''))
      | Some layout \<Rightarrow>
          if layout = [] then
            Inl (ValueError (''Layout '' @ [CHR 0x27] @ layout_name @ [CHR 0x27] @ '' is not defined.''))
          else
            (case map_of layout ''positions'' of
               None \<Rightarrow> Inl (KeyError ''positions'')
             | Some positions \<Rightarrow>
                 if length drawn \<noteq> length positions then
                   Inl (ValueError (layout_name @ '' layout requires exactly ''
                                     @ str_nat (length positions) @ '' cards.''))
                 else reading_loop T layout (enumerate 0 drawn) []))"

text \<open>
  The record the reading is to hold at index \<open>i\<close>: the position label at \<open>i\<close>, the card
  and orientation at \<open>i\<close>, and the four lookups for that card and orientation.
\<close>

definition record_at ::
  "tables \<Rightarrow> string list \<Rightarrow> (string \<times> string) list \<Rightarrow> nat \<Rightarrow> reading_entry" where
  "record_at T positions drawn i =
     \<lparr>Position = positions ! i,
      Card = fst (drawn ! i),
      Orientation = snd (drawn ! i),
      Meaning = interpret_card T (fst (drawn ! i)) (snd (drawn ! i)),
      Hidden_Symbols = hidden_symbols T (fst (drawn ! i)),
      Numerology = numerology T (fst (drawn ! i)),
      Color_Theory = color_theory T (fst (drawn ! i))\<rparr>"

text \<open>A message names a count when the decimal numeral of the count occurs in it.\<close>

definition names_count :: "string \<Rightarrow> nat \<Rightarrow> bool" where
  "names_count msg k = sublist (str_nat k) msg"

subsection \<open>Example data\<close>

definition example_tables :: tables where
  "example_tables =
     \<lparr>tarot_card_meanings =
        [''The Fool'' \<mapsto> [''Upright'' \<mapsto> ''New beginnings'', ''Reversed'' \<mapsto> ''Recklessness''],
         ''Death'' \<mapsto> [''Upright'' \<mapsto> ''Endings'']],
      spread_layouts =
        [''three-card'' \<mapsto> [(''positions'', [''Past'', ''Present'', ''Future''])],
         ''one-card'' \<mapsto> [(''positions'', [''Focus''])]],
      numerology_data = [''The Fool'' \<mapsto> ''0''],
      color_theory_data = [''The Sun'' \<mapsto> ''Yellow''],
      hidden_meanings_data = [''Death'' \<mapsto> ''White rose'']\<rparr>"

definition example_pairs :: "(string \<times> string) list" where
  "example_pairs =
     [(''The Fool'', ''Upright''), (''Death'', ''Reversed''), (''The Sun'', ''Upright'')]"

definition example_world :: world where
  "example_world = \<lparr>entropy = (\<lambda>k. 3 * k + k div 2), stdout = []\<rparr>"

definition blank_session :: session where
  "blank_session = \<lparr>deck = [], drawn_cards = []\<rparr>"

section \<open>Properties of the session\<close>

lemma length_full_deck: "length full_deck = 78"
  by (simp add: full_deck_def)

lemma distinct_full_deck: "distinct full_deck"
  unfolding full_deck_def by simp

lemma drop_full_deck: "drop 22 full_deck = minor_arcana"
  by (simp add: full_deck_def minor_arcana_def suits_def ranks_def)

text \<open>
  Claim C8. Immediately after \<^verbatim>\<open>reset_deck()\<close>, whatever the session was, the deck holds
  exactly 78 pairwise distinct card identifiers, namely 22 major cards followed by the
  56 rank-and-suit combinations of the minor cards, and the drawn history is empty.
\<close>

theorem reset_deck_full:
  "length (deck (reset_deck s)) = 78
   \<and> distinct (deck (reset_deck s))
   \<and> deck (reset_deck s) = full_deck
   \<and> length (take 22 (deck (reset_deck s))) = 22
   \<and> drop 22 (deck (reset_deck s)) = minor_arcana
   \<and> length minor_arcana = 56
   \<and> drawn_cards (reset_deck s) = []"
  by (simp add: reset_deck_def length_full_deck distinct_full_deck drop_full_deck [symmetric])

subsection \<open>One call of draw_cards\<close>

lemma choice_nonempty:
  "seq \<noteq> [] \<Longrightarrow> \<exists>x w'. choice seq w = Inr (x, w') \<and> x \<in> set seq \<and> stdout w' = stdout w"
  by (simp add: choice_def)

text \<open>With a card left, an iteration never raises: it moves one card of the deck to both lists.\<close>

lemma draw_loop_Suc:
  assumes "deck s \<noteq> []"
  shows "\<exists>c ori w2. c \<in> set (deck s) \<and> ori \<in> {''Upright'', ''Reversed''} \<and> stdout w2 = stdout w
           \<and> draw_loop (Suc k) s w drawn =
               draw_loop k (s\<lparr>deck := remove1 c (deck s), drawn_cards := drawn_cards s @ [(c, ori)]\<rparr>)
                 w2 (drawn @ [(c, ori)])"
proof -
  from choice_nonempty [OF assms, of w] obtain c w1
    where c: "choice (deck s) w = Inr (c, w1)" "c \<in> set (deck s)" "stdout w1 = stdout w"
    by blast
  have "[''Upright'', ''Reversed''] \<noteq> []" by simp
  from choice_nonempty [OF this, of w1] obtain ori w2
    where o: "choice [''Upright'', ''Reversed''] w1 = Inr (ori, w2)"
      "ori \<in> set [''Upright'', ''Reversed'']" "stdout w2 = stdout w1"
    by blast
  have "draw_loop (Suc k) s w drawn =
               draw_loop k (s\<lparr>deck := remove1 c (deck s), drawn_cards := drawn_cards s @ [(c, ori)]\<rparr>)
                 w2 (drawn @ [(c, ori)])"
    using assms c o by (simp add: list_remove_def)
  with c o show ?thesis by auto
qed

lemma draw_loop_spec:
  "\<exists>res s' w'. draw_loop k s w drawn = Inr (drawn @ res, s', w')
      \<and> length res = min k (length (deck s))
      \<and> drawn_cards s' = drawn_cards s @ res
      \<and> mset (map fst res) + mset (deck s') = mset (deck s)
      \<and> (\<forall>p \<in> set res. snd p \<in> {''Upright'', ''Reversed''})
      \<and> stdout w' = (if length (deck s) < k then stdout w @ [''No more cards to draw.'']
                      else stdout w)"
proof (induction k arbitrary: s w drawn)
  case 0
  then show ?case by simp
next
  case (Suc k)
  show ?case
  proof (cases "deck s = []")
    case True
    then show ?thesis by (simp add: print_def)
  next
    case False
    from draw_loop_Suc [OF False, of w k drawn] obtain c ori w2 where
      st: "c \<in> set (deck s)" "ori \<in> {''Upright'', ''Reversed''}" "stdout w2 = stdout w"
        "draw_loop (Suc k) s w drawn =
               draw_loop k (s\<lparr>deck := remove1 c (deck s), drawn_cards := drawn_cards s @ [(c, ori)]\<rparr>)
                 w2 (drawn @ [(c, ori)])"
      by blast
    let ?s1 = "s\<lparr>deck := remove1 c (deck s), drawn_cards := drawn_cards s @ [(c, ori)]\<rparr>"
    from Suc.IH [of ?s1 w2 "drawn @ [(c, ori)]"] obtain res s' w' where
      ih: "draw_loop k ?s1 w2 (drawn @ [(c, ori)]) = Inr ((drawn @ [(c, ori)]) @ res, s', w')"
        "length res = min k (length (deck ?s1))"
        "drawn_cards s' = drawn_cards ?s1 @ res"
        "mset (map fst res) + mset (deck s') = mset (deck ?s1)"
        "\<forall>p \<in> set res. snd p \<in> {''Upright'', ''Reversed''}"
        "stdout w' = (if length (deck ?s1) < k then stdout w2 @ [''No more cards to draw.'']
                        else stdout w2)"
      by blast
    obtain n where n: "length (deck s) = Suc n"
      using False by (cases "deck s") auto
    have len: "length (deck ?s1) = n"
      using st(1) n by (simp add: length_remove1)
    have m: "mset (deck ?s1) = mset (deck s) - {#c#}" by simp
    have cin: "c \<in># mset (deck s)" using st(1) by simp
    let ?res = "(c, ori) # res"
    have 1: "draw_loop (Suc k) s w drawn = Inr (drawn @ ?res, s', w')"
      using st(4) ih(1) by simp
    have 2: "length ?res = min (Suc k) (length (deck s))"
      using ih(2) len n by simp
    have 3: "drawn_cards s' = drawn_cards s @ ?res"
      using ih(3) by simp
    have 4: "mset (map fst ?res) + mset (deck s') = mset (deck s)"
      using ih(4) m cin by (simp add: union_assoc)
    have 5: "\<forall>p \<in> set ?res. snd p \<in> {''Upright'', ''Reversed''}"
      using ih(5) st(2) by simp
    have 6: "stdout w' = (if length (deck s) < Suc k then stdout w @ [''No more cards to draw.'']
                           else stdout w)"
      using ih(6) len n st(3) by simp
    from 1 2 3 4 5 6 show ?thesis by blast
  qed
qed

text \<open>
  \<^verbatim>\<open>draw_cards\<close> always returns: it draws as many cards as asked for or as are left,
  whichever is less, moves them from the deck to the history in the order drawn, and
  prints only when it was asked for more than were left.
\<close>

lemma draw_cards_spec:
  "\<exists>res s' w'. draw_cards n s w = Inr (res, s', w')
      \<and> length res = min (nat n) (length (deck s))
      \<and> drawn_cards s' = drawn_cards s @ res
      \<and> mset (map fst res) + mset (deck s') = mset (deck s)
      \<and> snd ` set res \<subseteq> {''Upright'', ''Reversed''}
      \<and> stdout w' = (if length (deck s) < nat n then stdout w @ [''No more cards to draw.'']
                      else stdout w)"
proof -
  from draw_loop_spec [of "nat n" s w "[]"] obtain res s' w' where
    h: "draw_loop (nat n) s w [] = Inr ([] @ res, s', w')"
      "length res = min (nat n) (length (deck s))"
      "drawn_cards s' = drawn_cards s @ res"
      "mset (map fst res) + mset (deck s') = mset (deck s)"
      "\<forall>p \<in> set res. snd p \<in> {''Upright'', ''Reversed''}"
      "stdout w' = (if length (deck s) < nat n then stdout w @ [''No more cards to draw.'']
                      else stdout w)"
    by blast
  from h(5) have "snd ` set res \<subseteq> {''Upright'', ''Reversed''}" by blast
  with h show ?thesis unfolding draw_cards_def by auto
qed

lemma draw_cards_length_deck:
  assumes "draw_cards n s w = Inr (res, s', w')"
  shows "length (deck s') = length (deck s) - length res"
    and "mset (deck s') + mset (map fst (drawn_cards s'))
           = mset (deck s) + mset (map fst (drawn_cards s))"
proof -
  from draw_cards_spec [of n s w] assms have
    h: "drawn_cards s' = drawn_cards s @ res"
      "mset (map fst res) + mset (deck s') = mset (deck s)"
    by auto
  from h(2) have "size (mset (map fst res) + mset (deck s')) = size (mset (deck s))" by simp
  then show "length (deck s') = length (deck s) - length res" by simp
  show "mset (deck s') + mset (map fst (drawn_cards s'))
          = mset (deck s) + mset (map fst (drawn_cards s))"
    using h by (simp add: ac_simps)
qed

text \<open>The model runs: two draws from a fresh deck with the example random source.\<close>

lemma draw_cards_two: "draw_cards 2 s w = draw_loop (Suc (Suc 0)) s w []"
  by (simp add: draw_cards_def numeral_2_eq_2)

lemma mod_Suc_Suc_0: "(n::nat) mod Suc (Suc 0) = n mod 2"
  by (simp add: numeral_2_eq_2)

lemma draw_cards_example:
  "map_sum id fst (draw_cards 2 (init blank_session) example_world)
     = Inr [(''The Fool'', ''Reversed''), (''Strength'', ''Upright'')]"
  unfolding draw_cards_two
  by (simp add: init_def reset_deck_def blank_session_def example_world_def full_deck_def
      choice_def list_remove_def mod_Suc_Suc_0)

text \<open>
  Claim C2. In any session state, a call \<^verbatim>\<open>draw_cards(n)\<close> with \<open>0 \<le> n\<close> and \<open>n\<close> at most
  the number of cards left in the deck returns, without raising, exactly \<open>n\<close> pairs,
  and every orientation in them is "Upright" or "Reversed".
\<close>

theorem draw_cards_exact:
  assumes "0 \<le> n" and "n \<le> int (length (deck s))"
  shows "\<exists>res s' w'. draw_cards n s w = Inr (res, s', w')
           \<and> int (length res) = n
           \<and> snd ` set res \<subseteq> {''Upright'', ''Reversed''}"
proof -
  from draw_cards_spec [of n s w] obtain res s' w' where
    h: "draw_cards n s w = Inr (res, s', w')"
      "length res = min (nat n) (length (deck s))"
      "snd ` set res \<subseteq> {''Upright'', ''Reversed''}"
    by blast
  from assms h(2) have "int (length res) = n" by simp
  with h show ?thesis by blast
qed

theorem draw_cards_exact_witness:
  "(0::int) \<le> 3 \<and> 3 \<le> int (length (deck (init blank_session)))
   \<and> (\<exists>res s' w'. draw_cards 3 (init blank_session) example_world = Inr (res, s', w')
         \<and> int (length res) = 3
         \<and> snd ` set res \<subseteq> {''Upright'', ''Reversed''})"
  using draw_cards_exact [of 3 "init blank_session" example_world]
  by (simp add: init_def reset_deck_def length_full_deck)

text \<open>
  Claim C5. In any session state, a call \<^verbatim>\<open>draw_cards(n)\<close> with \<open>n\<close> greater than the
  number of cards left returns normally (no exception reaches the caller; a line is
  printed) with exactly the cards that were left, each once, as many pairs as the deck
  had cards. Afterwards the deck is empty and the history is the old history followed
  by the returned pairs.
\<close>

theorem draw_cards_exhausted:
  assumes "int (length (deck s)) < n"
  shows "\<exists>res s' w'. draw_cards n s w = Inr (res, s', w')
           \<and> length res = length (deck s)
           \<and> mset (map fst res) = mset (deck s)
           \<and> deck s' = []
           \<and> drawn_cards s' = drawn_cards s @ res
           \<and> stdout w' = stdout w @ [''No more cards to draw.'']"
proof -
  from draw_cards_spec [of n s w] obtain res s' w' where
    h: "draw_cards n s w = Inr (res, s', w')"
      "length res = min (nat n) (length (deck s))"
      "drawn_cards s' = drawn_cards s @ res"
      "mset (map fst res) + mset (deck s') = mset (deck s)"
      "stdout w' = (if length (deck s) < nat n then stdout w @ [''No more cards to draw.'']
                      else stdout w)"
    by blast
  from assms have lt: "length (deck s) < nat n" by simp
  with h(2) have len: "length res = length (deck s)" by simp
  from draw_cards_length_deck(1) [OF h(1)] len have e: "deck s' = []" by simp
  with h(4) have "mset (map fst res) = mset (deck s)" by simp
  with h lt len e show ?thesis by simp
qed

theorem draw_cards_exhausted_witness:
  "int (length (deck (init blank_session))) < 80
   \<and> (\<exists>res s' w'. draw_cards 80 (init blank_session) example_world = Inr (res, s', w')
         \<and> length res = 78
         \<and> mset (map fst res) = mset full_deck
         \<and> deck s' = []
         \<and> drawn_cards s' = res
         \<and> stdout w' = [''No more cards to draw.''])"
  using draw_cards_exhausted [of "init blank_session" 80 example_world]
  by (simp add: init_def reset_deck_def length_full_deck example_world_def)

text \<open>
  Claim C10. In any session state, a call \<^verbatim>\<open>draw_cards(n)\<close> with \<open>n \<le> 0\<close> returns the empty
  list and leaves the deck and the drawn history as they were (and prints nothing).
\<close>

theorem draw_cards_nonpositive:
  assumes "n \<le> 0"
  shows "draw_cards n s w = Inr ([], s, w)"
  using assms by (simp add: draw_cards_def)

theorem draw_cards_nonpositive_witness:
  "(- 3::int) \<le> 0
   \<and> draw_cards (- 3) (init blank_session) example_world
       = Inr ([], init blank_session, example_world)"
  using draw_cards_nonpositive [of "- 3" "init blank_session" example_world] by simp

subsection \<open>Sequences of calls\<close>

text \<open>Every reachable state holds the 78 cards, each once, split between deck and history.\<close>

lemma reachable_mset:
  "reachable s \<Longrightarrow> mset (deck s) + mset (map fst (drawn_cards s)) = mset full_deck"
proof (induction rule: reachable.induct)
  case (reach_init s)
  show ?case by (simp add: init_def reset_deck_def)
next
  case (reach_reset s)
  show ?case by (simp add: reset_deck_def)
next
  case (reach_draw s n w drawn s' w')
  from draw_cards_length_deck(2) [OF reach_draw.hyps(2)] reach_draw.IH
  show ?case by simp
qed

lemma full_deck_split:
  assumes "mset (deck s) + mset (map fst (drawn_cards s)) = mset full_deck"
  shows "distinct (map fst (drawn_cards s))"
    and "set (map fst (drawn_cards s)) \<inter> set (deck s) = {}"
    and "length (deck s) + length (drawn_cards s) = 78"
proof -
  from assms have m: "mset (deck s @ map fst (drawn_cards s)) = mset full_deck" by simp
  from mset_eq_imp_distinct_iff [OF m] distinct_full_deck
  have d: "distinct (deck s @ map fst (drawn_cards s))" by simp
  then show "distinct (map fst (drawn_cards s))" by simp
  from d show "set (map fst (drawn_cards s)) \<inter> set (deck s) = {}" by auto
  from mset_eq_length [OF m] show "length (deck s) + length (drawn_cards s) = 78"
    by (simp add: length_full_deck)
qed

text \<open>
  Claim C9. In every state reachable from a fresh or reset session by calls of
  \<^verbatim>\<open>draw_cards\<close>, no card of the drawn history is in the remaining deck, and the number
  of cards in the deck plus the length of the history is 78.
\<close>

theorem reachable_partition:
  assumes "reachable s"
  shows "set (map fst (drawn_cards s)) \<inter> set (deck s) = {}
         \<and> length (deck s) + length (drawn_cards s) = 78"
  using full_deck_split(2,3) [OF reachable_mset [OF assms]] by simp

theorem reachable_partition_witness:
  "\<exists>drawn s' w'. draw_cards 5 (init blank_session) example_world = Inr (drawn, s', w')
      \<and> reachable s'
      \<and> set (map fst (drawn_cards s')) \<inter> set (deck s') = {}
      \<and> length (deck s') + length (drawn_cards s') = 78"
proof -
  from draw_cards_spec [of 5 "init blank_session" example_world] obtain drawn s' w'
    where d: "draw_cards 5 (init blank_session) example_world = Inr (drawn, s', w')"
    by blast
  have r: "reachable s'"
    by (rule reach_draw [OF reach_init d])
  from reachable_partition [OF r] d r show ?thesis by blast
qed

lemma sum_list_nonneg_int: "\<forall>n \<in> set ns. (0::int) \<le> n \<Longrightarrow> 0 \<le> sum_list ns"
  by (induction ns) auto

lemma draw_many_spec:
  assumes "\<forall>n \<in> set ns. 0 \<le> n"
  shows "\<exists>s' w'. draw_many ns s w = Inr (s', w')
           \<and> mset (deck s') + mset (map fst (drawn_cards s'))
               = mset (deck s) + mset (map fst (drawn_cards s))
           \<and> int (length (drawn_cards s'))
               = int (length (drawn_cards s)) + min (int (length (deck s))) (sum_list ns)"
  using assms
proof (induction ns arbitrary: s w)
  case Nil
  show ?case by simp
next
  case (Cons n ns)
  from Cons.prems have n0: "0 \<le> n" and rest: "\<forall>n \<in> set ns. 0 \<le> n" by simp_all
  from draw_cards_spec [of n s w] obtain res s1 w1 where
    h: "draw_cards n s w = Inr (res, s1, w1)"
      "length res = min (nat n) (length (deck s))"
      "drawn_cards s1 = drawn_cards s @ res"
    by blast
  note d = draw_cards_length_deck [OF h(1)]
  from Cons.IH [OF rest, of s1 w1] obtain s' w' where
    ih: "draw_many ns s1 w1 = Inr (s', w')"
      "mset (deck s') + mset (map fst (drawn_cards s'))
               = mset (deck s1) + mset (map fst (drawn_cards s1))"
      "int (length (drawn_cards s'))
               = int (length (drawn_cards s1)) + min (int (length (deck s1))) (sum_list ns)"
    by blast
  have 1: "draw_many (n # ns) s w = Inr (s', w')" using h(1) ih(1) by simp
  have 2: "mset (deck s') + mset (map fst (drawn_cards s'))
               = mset (deck s) + mset (map fst (drawn_cards s))"
    using ih(2) d(2) by simp
  have sn: "0 \<le> sum_list ns" using rest by (rule sum_list_nonneg_int)
  have 3: "int (length (drawn_cards s'))
               = int (length (drawn_cards s)) + min (int (length (deck s))) (sum_list (n # ns))"
  proof (cases "nat n \<le> length (deck s)")
    case True
    with h(2) have "length res = nat n" by simp
    with ih(3) h(3) d(1) n0 True sn show ?thesis by (simp add: min_def)
  next
    case False
    with h(2) have "length res = length (deck s)" by simp
    with ih(3) h(3) d(1) n0 False sn show ?thesis by (simp add: min_def)
  qed
  from 1 2 3 show ?case by blast
qed

text \<open>
  Claim C1. Start from a session that was just constructed or reset, and call
  \<^verbatim>\<open>draw_cards\<close> any number of times with non-negative sizes and no reset in between.
  Every call returns, and afterwards the drawn history has no card twice, its length
  is the sum of the requested sizes as long as that sum is at most 78 and is 78 from
  then on (the deck is exhausted), and so its length never exceeds 78.
\<close>

theorem draw_many_history:
  assumes "\<forall>n \<in> set ns. 0 \<le> n"
  shows "\<exists>s' w'. draw_many ns (reset_deck s) w = Inr (s', w')
           \<and> distinct (map fst (drawn_cards s'))
           \<and> int (length (drawn_cards s')) = min 78 (sum_list ns)
           \<and> length (drawn_cards s') \<le> 78"
proof -
  from draw_many_spec [OF assms, of "reset_deck s" w] obtain s' w' where
    h: "draw_many ns (reset_deck s) w = Inr (s', w')"
       "mset (deck s') + mset (map fst (drawn_cards s')) = mset full_deck"
       "int (length (drawn_cards s')) = min 78 (sum_list ns)"
    by (auto simp: reset_deck_def length_full_deck)
  note f = full_deck_split [OF h(2)]
  from f(3) have "length (drawn_cards s') \<le> 78" by simp
  with h f(1) show ?thesis by blast
qed

theorem draw_many_history_witness:
  "(0::int) \<le> 3 \<and> (0::int) \<le> 0 \<and> (0::int) \<le> 10
   \<and> (\<exists>s' w'. draw_many [3, 0, 10] (reset_deck blank_session) example_world = Inr (s', w')
         \<and> distinct (map fst (drawn_cards s'))
         \<and> int (length (drawn_cards s')) = 13
         \<and> length (drawn_cards s') \<le> 78)"
  using draw_many_history [of "[3, 0, 10]" blank_session example_world] by simp

section \<open>Properties of the interpretation and the reading assembler\<close>

text \<open>
  Claim C7. The four lookups are functions into text with no exceptional result
  (\<^verbatim>\<open>dict.get\<close> with a default does not raise), and each returns its table's fixed
  placeholder when the key is absent: the meaning when the card is not in the meaning
  table or the card's entry has no text for the orientation, the other three when the
  card is not in their table.
\<close>

theorem lookups_fallback:
  "(tarot_card_meanings T c = None \<longrightarrow> interpret_card T c ori = ''No meaning found.'')
   \<and> (tarot_card_meanings T c' = Some m \<and> m ori' = None
        \<longrightarrow> interpret_card T c' ori' = ''No meaning found.'')
   \<and> (hidden_meanings_data T c = None \<longrightarrow> hidden_symbols T c = ''No hidden symbols found.'')
   \<and> (numerology_data T c = None \<longrightarrow> numerology T c = ''No numerology found.'')
   \<and> (color_theory_data T c = None \<longrightarrow> color_theory T c = ''No color theory found.'')"
  by (simp add: interpret_card_def hidden_symbols_def numerology_def color_theory_def dict_get_def)

theorem lookups_fallback_witness:
  "tarot_card_meanings example_tables ''The Moon'' = None
   \<and> interpret_card example_tables ''The Moon'' ''Upright'' = ''No meaning found.''
   \<and> tarot_card_meanings example_tables ''Death'' = Some [''Upright'' \<mapsto> ''Endings'']
   \<and> [''Upright'' \<mapsto> ''Endings''] ''Reversed'' = None
   \<and> interpret_card example_tables ''Death'' ''Reversed'' = ''No meaning found.''
   \<and> hidden_meanings_data example_tables ''The Moon'' = None
   \<and> hidden_symbols example_tables ''The Moon'' = ''No hidden symbols found.''
   \<and> numerology_data example_tables ''The Moon'' = None
   \<and> numerology example_tables ''The Moon'' = ''No numerology found.''
   \<and> color_theory_data example_tables ''The Moon'' = None
   \<and> color_theory example_tables ''The Moon'' = ''No color theory found.''"
  using lookups_fallback [of example_tables "''The Moon''" "''Upright''" "''Death''"
      "[''Upright'' \<mapsto> ''Endings'']" "''Reversed''"]
  by (simp add: example_tables_def)

text \<open>With a position label for every pair, the loop never raises and appends one record per pair.\<close>

lemma reading_loop_spec:
  assumes "map_of layout ''positions'' = Some positions"
    and "k + length ps \<le> length positions"
  shows "reading_loop T layout (enumerate k ps) acc =
           Inr (acc @ map (\<lambda>(i, c, ori). \<lparr>Position = positions ! i, Card = c, Orientation = ori,
                  Meaning = interpret_card T c ori, Hidden_Symbols = hidden_symbols T c,
                  Numerology = numerology T c, Color_Theory = color_theory T c\<rparr>)
                (enumerate k ps))"
  using assms(2)
proof (induction ps arbitrary: k acc)
  case Nil
  show ?case by simp
next
  case (Cons p ps)
  obtain c ori where p: "p = (c, ori)" by (cases p)
  from Cons.prems have k: "k < length positions" and r: "Suc k + length ps \<le> length positions"
    by simp_all
  show ?case using assms(1) k Cons.IH [OF r] by (simp add: p)
qed

lemma enumerate_records:
  "map (\<lambda>(i, c, ori). \<lparr>Position = positions ! i, Card = c, Orientation = ori,
                  Meaning = interpret_card T c ori, Hidden_Symbols = hidden_symbols T c,
                  Numerology = numerology T c, Color_Theory = color_theory T c\<rparr>)
      (enumerate 0 drawn)
   = map (record_at T positions drawn) [0..<length drawn]"
  by (rule nth_equalityI) (simp_all add: nth_enumerate_eq record_at_def split_beta)

text \<open>
  Claim C3. For a layout that the table knows, with as many position labels as there
  are drawn pairs, \<^verbatim>\<open>create_reading\<close> returns a list of records as long as the list of
  pairs, in the order of the pairs, whose record at index \<open>i\<close> holds the position label
  at \<open>i\<close>, the card and orientation at \<open>i\<close> and the four lookups for them. In particular,
  for the positions Past, Present, Future and the pairs (The Fool, Upright),
  (Death, Reversed), (The Sun, Upright), the first record has Position "Past", Card
  "The Fool" and Orientation "Upright".
\<close>

theorem create_reading_records:
  assumes "spread_layouts T layout_name = Some layout"
    and "map_of layout ''positions'' = Some positions"
    and "length drawn = length positions"
  shows "\<exists>reading. create_reading T drawn layout_name = Inr reading
           \<and> length reading = length drawn
           \<and> reading = map (record_at T positions drawn) [0..<length drawn]
           \<and> (positions = [''Past'', ''Present'', ''Future'']
                \<and> drawn = [(''The Fool'', ''Upright''), (''Death'', ''Reversed''),
                            (''The Sun'', ''Upright'')]
              \<longrightarrow> Position (reading ! 0) = ''Past'' \<and> Card (reading ! 0) = ''The Fool''
                  \<and> Orientation (reading ! 0) = ''Upright'')"
proof -
  from assms(2) have ne: "layout \<noteq> []" by auto
  from assms(3) have "0 + length drawn \<le> length positions" by simp
  from reading_loop_spec [OF assms(2) this, of T "[]"]
  have "reading_loop T layout (enumerate 0 drawn) []
          = Inr (map (record_at T positions drawn) [0..<length drawn])"
    by (simp add: enumerate_records)
  with assms ne
  have 1: "create_reading T drawn layout_name
             = Inr (map (record_at T positions drawn) [0..<length drawn])"
    by (simp add: create_reading_def)
  have 2: "positions = [''Past'', ''Present'', ''Future'']
             \<and> drawn = [(''The Fool'', ''Upright''), (''Death'', ''Reversed''),
                         (''The Sun'', ''Upright'')]
           \<longrightarrow> Position (map (record_at T positions drawn) [0..<length drawn] ! 0) = ''Past''
               \<and> Card (map (record_at T positions drawn) [0..<length drawn] ! 0) = ''The Fool''
               \<and> Orientation (map (record_at T positions drawn) [0..<length drawn] ! 0) = ''Upright''"
    by (simp add: record_at_def upt_rec)
  from 1 2 show ?thesis by simp
qed

theorem create_reading_records_witness:
  "spread_layouts example_tables ''three-card''
     = Some [(''positions'', [''Past'', ''Present'', ''Future''])]
   \<and> map_of [(''positions'', [''Past'', ''Present'', ''Future''])] ''positions''
     = Some [''Past'', ''Present'', ''Future'']
   \<and> length example_pairs = length [''Past'', ''Present'', ''Future'']
   \<and> create_reading example_tables example_pairs ''three-card''
     = Inr [\<lparr>Position = ''Past'', Card = ''The Fool'', Orientation = ''Upright'',
              Meaning = ''New beginnings'', Hidden_Symbols = ''No hidden symbols found.'',
              Numerology = ''0'', Color_Theory = ''No color theory found.''\<rparr>,
            \<lparr>Position = ''Present'', Card = ''Death'', Orientation = ''Reversed'',
              Meaning = ''No meaning found.'', Hidden_Symbols = ''White rose'',
              Numerology = ''No numerology found.'',
              Color_Theory = ''No color theory found.''\<rparr>,
            \<lparr>Position = ''Future'', Card = ''The Sun'', Orientation = ''Upright'',
              Meaning = ''No meaning found.'', Hidden_Symbols = ''No hidden symbols found.'',
              Numerology = ''No numerology found.'', Color_Theory = ''Yellow''\<rparr>]"
  using create_reading_records [of example_tables "''three-card''"
      "[(''positions'', [''Past'', ''Present'', ''Future''])]"
      "[''Past'', ''Present'', ''Future'']" example_pairs]
  by (simp add: example_tables_def example_pairs_def record_at_def upt_rec
      interpret_card_def hidden_symbols_def numerology_def color_theory_def dict_get_def)

lemma sublist_middle: "sublist xs (a @ xs @ b)"
  by (auto simp: sublist_def)

text \<open>
  Claim C4, as the code has it. For a layout that the table knows and a list of drawn
  pairs whose length differs from the layout's number of position labels,
  \<^verbatim>\<open>create_reading\<close> raises \<^verbatim>\<open>ValueError\<close> with the message
  "<layout name> layout requires exactly <expected count> cards.", which names the
  expected count. The message is the same whatever the list of pairs is, so the actual
  count is not part of it.
\<close>

theorem create_reading_count_mismatch:
  assumes "spread_layouts T layout_name = Some layout"
    and "map_of layout ''positions'' = Some positions"
    and "length drawn \<noteq> length positions"
  shows "create_reading T drawn layout_name =
           Inl (ValueError (layout_name @ '' layout requires exactly ''
                             @ str_nat (length positions) @ '' cards.''))
         \<and> names_count (layout_name @ '' layout requires exactly ''
                          @ str_nat (length positions) @ '' cards.'') (length positions)"
proof -
  from assms(2) have ne: "layout \<noteq> []" by auto
  have "sublist (str_nat (length positions))
          ((layout_name @ '' layout requires exactly '') @ str_nat (length positions) @ '' cards.'')"
    by (rule sublist_middle)
  then have "names_count (layout_name @ '' layout requires exactly ''
                           @ str_nat (length positions) @ '' cards.'') (length positions)"
    by (simp add: names_count_def)
  with assms ne show ?thesis by (simp add: create_reading_def)
qed

theorem create_reading_count_mismatch_witness:
  "spread_layouts example_tables ''three-card''
     = Some [(''positions'', [''Past'', ''Present'', ''Future''])]
   \<and> map_of [(''positions'', [''Past'', ''Present'', ''Future''])] ''positions''
     = Some [''Past'', ''Present'', ''Future'']
   \<and> length [(''The Fool'', ''Upright'')] \<noteq> length [''Past'', ''Present'', ''Future'']
   \<and> create_reading example_tables [(''The Fool'', ''Upright'')] ''three-card''
     = Inl (ValueError ''three-card layout requires exactly 3 cards.'')
   \<and> names_count ''three-card layout requires exactly 3 cards.'' 3"
  using create_reading_count_mismatch [of example_tables "''three-card''"
      "[(''positions'', [''Past'', ''Present'', ''Future''])]"
      "[''Past'', ''Present'', ''Future'']" "[(''The Fool'', ''Upright'')]"]
  by (simp add: example_tables_def str_nat.simps numeral_3_eq_3)

text \<open>
  Claim C4, as the spec states it, fails: two pairs against the three positions of the
  layout "three-card" raise a message in which the actual count, 2, does not occur.
\<close>

theorem count_mismatch_counterexample:
  "create_reading example_tables [(''The Fool'', ''Upright''), (''Death'', ''Reversed'')]
       ''three-card''
     = Inl (ValueError ''three-card layout requires exactly 3 cards.'')
   \<and> \<not> names_count ''three-card layout requires exactly 3 cards.''
         (length [(''The Fool'', ''Upright''), (''Death'', ''Reversed'')])"
  by (simp add: create_reading_def example_tables_def names_count_def str_nat.simps sublist_code)

text \<open>
  Claim C6. For a layout name that is not in the layout table, whatever the drawn
  pairs are, \<^verbatim>\<open>create_reading\<close> returns no reading: it raises \<^verbatim>\<open>ValueError\<close> with the
  message "Layout '<layout name>' is not defined.".
\<close>

theorem create_reading_unknown_layout:
  assumes "spread_layouts T layout_name = None"
  shows "create_reading T drawn layout_name =
           Inl (ValueError (''Layout '' @ [CHR 0x27] @ layout_name @ [CHR 0x27]
                             @ '' is not defined.''))"
  using assms by (simp add: create_reading_def)

theorem create_reading_unknown_layout_witness:
  "spread_layouts example_tables ''celtic-cross'' = None
   \<and> create_reading example_tables example_pairs ''celtic-cross''
     = Inl (ValueError (''Layout '' @ [CHR 0x27] @ ''celtic-cross'' @ [CHR 0x27]
                         @ '' is not defined.''))"
  using create_reading_unknown_layout [of example_tables "''celtic-cross''" example_pairs]
  by (simp add: example_tables_def)

end
